theory Spec2Isabelle
  imports Main
begin

unbundle bit_operations_syntax

section \<open>Text and bytes\<close>

text \<open>
  The program of \<^verbatim>\<open>cloudquery_sync_dag.py\<close> handles Python \<^verbatim>\<open>str\<close> and
  \<^verbatim>\<open>bytes\<close> values. Both are lists of 8-bit characters here: a \<^verbatim>\<open>bytes\<close> value
  is the list of its bytes, a \<^verbatim>\<open>str\<close> value is the list of the bytes of its UTF-8
  encoding. Concatenation, equality and f-string interpolation of text are then the
  same operations on the lists, and literals of the source (all ASCII) are themselves.
\<close>

type_synonym bytes = string

text \<open>
  \<^verbatim>\<open>str.lower()\<close>: the ASCII capitals are mapped to their small letters. Every other
  byte is kept, so cased letters outside ASCII are not converted. This does not change
  any comparison the program makes: the names it compares the result with
  (\<^verbatim>\<open>darwin\<close>, \<^verbatim>\<open>linux\<close>, \<^verbatim>\<open>windows\<close>, \<^verbatim>\<open>x86_64\<close>, \<^verbatim>\<open>amd64\<close>,
  \<^verbatim>\<open>aarch64\<close>, \<^verbatim>\<open>arm64\<close>) are ASCII, and the only character outside ASCII that
  Python lower-cases to an ASCII letter is the Kelvin sign, to \<^verbatim>\<open>k\<close>, which occurs in
  none of them.
\<close>

definition lower_char :: "char \<Rightarrow> char" where
  "lower_char c =
     (case map_of (zip ''ABCDEFGHIJKLMNOPQRSTUVWXYZ'' ''abcdefghijklmnopqrstuvwxyz'') c of
        Some d \<Rightarrow> d
      | None \<Rightarrow> c)"

definition lower :: "string \<Rightarrow> string" where
  "lower s = map lower_char s"

text \<open>
  \<^verbatim>\<open>str.strip()\<close> without argument removes leading and trailing whitespace; the ASCII
  whitespace characters of Python are the codes 9 to 13, 28 to 31 and 32.
\<close>

definition is_space :: "char \<Rightarrow> bool" where
  "is_space c = ((of_char c :: nat) \<in> set [9, 10, 11, 12, 13, 28, 29, 30, 31, 32])"

definition strip :: "string \<Rightarrow> string" where
  "strip s = rev (dropWhile is_space (rev (dropWhile is_space s)))"

text \<open>The decimal text of an integer, as an f-string renders \<^verbatim>\<open>{result.returncode}\<close>.\<close>

function str_nat :: "nat \<Rightarrow> string" where
  "str_nat n =
     (if n < 10 then [''0123456789'' ! n]
      else str_nat (n div 10) @ [''0123456789'' ! (n mod 10)])"
  by pat_completeness auto
termination
  by (relation "measure id") auto

definition str_int :: "int \<Rightarrow> string" where
  "str_int i = (if i < 0 then CHR ''-'' # str_nat (nat (- i)) else str_nat (nat i))"

text \<open>A number written in octal, as the literal \<^verbatim>\<open>0o755\<close> of the source is.\<close>

definition octal :: "nat list \<Rightarrow> nat" where
  "octal ds = foldl (\<lambda>a d. 8 * a + d) 0 ds"

section \<open>Errors\<close>

text \<open>
  The exceptions the program can raise. \<open>ValueError\<close> and \<open>Exception\<close> carry their
  message. \<open>RequestException\<close> stands for every failure of \<^verbatim>\<open>requests.get\<close> itself
  (no connection, timeout); \<open>HTTPError\<close> is what \<^verbatim>\<open>raise_for_status\<close> raises, with
  the status code and its class. \<open>OSError\<close> is a failed system call.
\<close>

datatype error =
    ValueError string
  | RequestException
  | HTTPError int string
  | UnicodeDecodeError
  | OSError
  | Exception string

text \<open>
  \<^verbatim>\<open>bytes.decode()\<close>: strict UTF-8. The bytes are accepted when they are well-formed
  UTF-8 (no overlong form, no surrogate, nothing above U+10FFFF) and the text is then
  the same list of bytes; otherwise \<^verbatim>\<open>UnicodeDecodeError\<close> is raised.
\<close>

definition in_range :: "char \<Rightarrow> nat \<Rightarrow> nat \<Rightarrow> bool" where
  "in_range c lo hi = (lo \<le> of_char c \<and> (of_char c :: nat) \<le> hi)"

fun utf8_valid :: "bytes \<Rightarrow> bool" where
  "utf8_valid [] = True"
| "utf8_valid (b # bs) =
     (let n = (of_char b :: nat) in
      if n < 0x80 then utf8_valid bs
      else if 0xC2 \<le> n \<and> n \<le> 0xDF then
        (case bs of
           c1 # r \<Rightarrow> in_range c1 0x80 0xBF \<and> utf8_valid r
         | _ \<Rightarrow> False)
      else if 0xE0 \<le> n \<and> n \<le> 0xEF then
        (case bs of
           c1 # c2 # r \<Rightarrow>
             in_range c1 (if n = 0xE0 then 0xA0 else 0x80) (if n = 0xED then 0x9F else 0xBF)
             \<and> in_range c2 0x80 0xBF \<and> utf8_valid r
         | _ \<Rightarrow> False)
      else if 0xF0 \<le> n \<and> n \<le> 0xF4 then
        (case bs of
           c1 # c2 # c3 # r \<Rightarrow>
             in_range c1 (if n = 0xF0 then 0x90 else 0x80) (if n = 0xF4 then 0x8F else 0xBF)
             \<and> in_range c2 0x80 0xBF \<and> in_range c3 0x80 0xBF \<and> utf8_valid r
         | _ \<Rightarrow> False)
      else False)"

definition bytes_decode :: "bytes \<Rightarrow> error + string" where
  "bytes_decode b = (if utf8_valid b then Inr b else Inl UnicodeDecodeError)"

section \<open>The host and the state\<close>

text \<open>
  What the library calls of the program return on a given machine is collected in a
  \<open>host\<close>; the program's code is modelled for every host.
  \<^item> \<open>platform_system\<close>, \<open>platform_machine\<close>: the results of \<^verbatim>\<open>platform.system()\<close>
    and \<^verbatim>\<open>platform.machine()\<close>, before \<^verbatim>\<open>.lower()\<close>;
  \<^item> \<open>gettempdir\<close>: the result of \<^verbatim>\<open>tempfile.gettempdir()\<close>;
  \<^item> \<open>os_path_join\<close>: \<^verbatim>\<open>os.path.join\<close> with two arguments (\<^verbatim>\<open>posixpath\<close> or
    \<^verbatim>\<open>ntpath\<close>);
  \<^item> \<open>create_mode\<close>: the permission bits a newly created file gets;
  \<^item> \<open>requests_get\<close>: the response \<^verbatim>\<open>requests.get(url)\<close> returns, \<open>None\<close> when the
    call raises instead;
  \<^item> \<open>os_popen\<close>: what running a shell command through \<^verbatim>\<open>os.popen\<close> yields: the
    bytes the command prints on its standard output and its exit status (which the
    program never asks for);
  \<^item> \<open>locale_decode\<close>: the strict decoding, in the encoding of the locale, that
    \<^verbatim>\<open>.read()\<close> applies to those bytes, the pipe of \<^verbatim>\<open>os.popen\<close> being opened in
    text mode: the text, or the error raised when the bytes do not decode;
  \<^item> \<open>subprocess_run\<close>: the completed process \<^verbatim>\<open>subprocess.run(args,
    capture_output=True)\<close> returns, \<open>None\<close> when the process cannot be started.
\<close>

record response =
  status_code :: int
  content :: bytes

record popen_result =
  printed :: bytes
  exit_status :: int

record completed_process =
  returncode :: int
  stdout :: bytes
  stderr :: bytes

record host =
  platform_system :: string
  platform_machine :: string
  gettempdir :: string
  os_path_join :: "string \<Rightarrow> string \<Rightarrow> string"
  create_mode :: nat
  requests_get :: "string \<Rightarrow> response option"
  os_popen :: "string \<Rightarrow> popen_result"
  locale_decode :: "bytes \<Rightarrow> error + string"
  subprocess_run :: "string list \<Rightarrow> completed_process option"

text \<open>
  The state the program changes: the file system, a map from paths to files (their
  bytes and permission bits), and the trace of the effects performed so far, in order.
  Writing a file always succeeds in this model.
\<close>

record file_entry =
  data :: bytes
  mode :: nat

datatype event =
    Log string
  | HttpGet string
  | Write string bytes
  | Chmod string nat
  | Popen string

record state =
  fs :: "string \<rightharpoonup> file_entry"
  trace :: "event list"

definition emit :: "event \<Rightarrow> state \<Rightarrow> state" where
  "emit e s = s\<lparr>trace := trace s @ [e]\<rparr>"

definition logger_info :: "string \<Rightarrow> state \<Rightarrow> state" where
  "logger_info msg s = emit (Log msg) s"

definition os_path_exists :: "state \<Rightarrow> string \<Rightarrow> bool" where
  "os_path_exists s p = (fs s p \<noteq> None)"

text \<open>
  \<^verbatim>\<open>with open(file_path, "wb") as f: f.write(b)\<close>: the file holds exactly \<open>b\<close>
  afterwards; a file that was there keeps its permission bits, a new one gets the
  host's creation mode.
\<close>

definition write_binary :: "host \<Rightarrow> string \<Rightarrow> bytes \<Rightarrow> state \<Rightarrow> state" where
  "write_binary h p b s =
     emit (Write p b)
       (s\<lparr>fs := (fs s)(p \<mapsto>
          \<lparr>data = b, mode = (case fs s p of Some f \<Rightarrow> mode f | None \<Rightarrow> create_mode h)\<rparr>)\<rparr>)"

text \<open>\<^verbatim>\<open>os.chmod(path, m)\<close>: raises when there is no file at the path.\<close>

definition os_chmod :: "string \<Rightarrow> nat \<Rightarrow> state \<Rightarrow> error + state" where
  "os_chmod p m s =
     (case fs s p of
        None \<Rightarrow> Inl OSError
      | Some f \<Rightarrow> Inr (emit (Chmod p m) (s\<lparr>fs := (fs s)(p \<mapsto> f\<lparr>mode := m\<rparr>)\<rparr>)))"

text \<open>
  \<^verbatim>\<open>response.raise_for_status()\<close>: an error for the status codes 400 to 599, nothing
  for any other code.
\<close>

definition raise_for_status :: "response \<Rightarrow> error + unit" where
  "raise_for_status r =
     (if 400 \<le> status_code r \<and> status_code r < 500
        then Inl (HTTPError (status_code r) ''Client Error'')
      else if 500 \<le> status_code r \<and> status_code r < 600
        then Inl (HTTPError (status_code r) ''Server Error'')
      else Inr ())"

section \<open>The program\<close>

text \<open>
  \<^verbatim>\<open>_get_cloudquery_download_url(version)\<close> (an Isabelle name cannot start with an
  underscore). The two \<^verbatim>\<open>if\<close>/\<^verbatim>\<open>elif\<close> chains are kept in the order of the source:
  the system is checked first, then the architecture.
\<close>

definition get_cloudquery_download_url :: "host \<Rightarrow> string \<Rightarrow> error + string" where
  "get_cloudquery_download_url h version =
     (let system = lower (platform_system h);
          arch = lower (platform_machine h)
      in case (if system = ''darwin'' then Inr ''darwin''
               else if system = ''linux'' then Inr ''linux''
               else if system = ''windows'' then Inr ''windows''
               else Inl (ValueError (''Unsupported system: '' @ system))) of
           Inl e \<Rightarrow> Inl e
         | Inr system \<Rightarrow>
             (case (if arch \<in> set [''x86_64'', ''amd64''] then Inr ''amd64''
                    else if arch \<in> set [''aarch64'', ''arm64''] then Inr ''arm64''
                    else Inl (ValueError (''Unsupported architecture: '' @ arch))) of
                Inl e \<Rightarrow> Inl e
              | Inr arch \<Rightarrow>
                  (let extension = (if system = ''windows'' then ''.exe'' else '''');
                       filename = ''cloudquery_'' @ system @ ''_'' @ arch @ extension;
                       url = ''https://github.com/cloudquery/cloudquery/releases/download/cli-''
                               @ version @ ''/'' @ filename
                   in Inr url)))"

text \<open>
  \<^verbatim>\<open>download_cloudquery(version)\<close>. The result is the returned path or the raised
  error, together with the state at that moment. The \<^verbatim>\<open>.read()\<close> of line 106 decodes
  what the version check printed, and raises when that does not decode: the file is
  written by then, and nothing catches the error.
\<close>

definition download_cloudquery :: "host \<Rightarrow> state \<Rightarrow> string \<Rightarrow> (error + string) \<times> state" where
  "download_cloudquery h s version =
     (let target_folder = gettempdir h;
          extension = (if lower (platform_system h) = ''windows'' then ''.exe'' else '''');
          file_name = ''cloudquery'' @ extension;
          file_path = os_path_join h target_folder file_name
      in if os_path_exists s file_path
         then (Inr file_path,
               logger_info (''File already exists at '' @ file_path @ '', skipping download.'') s)
         else
           (case get_cloudquery_download_url h version of
              Inl e \<Rightarrow> (Inl e, s)
            | Inr url \<Rightarrow>
                (let s1 = logger_info (''Downloading '' @ url @ '' to '' @ file_path @ ''...'') s;
                     s2 = emit (HttpGet url) s1
                 in case requests_get h url of
                      None \<Rightarrow> (Inl RequestException, s2)
                    | Some response \<Rightarrow>
                        (case raise_for_status response of
                           Inl e \<Rightarrow> (Inl e, s2)
                         | Inr _ \<Rightarrow>
                             (let s3 = write_binary h file_path (content response) s2
                              in case (if lower (platform_system h) \<noteq> ''windows''
                                       then (case os_chmod file_path (octal [7, 5, 5]) s3 of
                                               Inl e \<Rightarrow> Inl e
                                             | Inr s4 \<Rightarrow>
                                                 Inr (logger_info
                                                   (''Set executable permissions on '' @ file_path) s4))
                                       else Inr s3) of
                                   Inl e \<Rightarrow> (Inl e, s3)
                                 | Inr s5 \<Rightarrow>
                                     (let s6 = logger_info ''Checking CloudQuery version...'' s5;
                                          version_check_command = file_path @ '' --version'';
                                          s7 = emit (Popen version_check_command) s6
                                      in case locale_decode h
                                                (printed (os_popen h version_check_command)) of
                                           Inl e \<Rightarrow> (Inl e, s7)
                                         | Inr version_output \<Rightarrow>
                                             (let s8 = logger_info
                                                    (''CloudQuery version: '' @ strip version_output) s7;
                                                  s9 = logger_info (''Downloaded to '' @ file_path) s8
                                              in (Inr file_path, s9))))))))"

text \<open>
  \<^verbatim>\<open>run_xkcd_to_sqlite_sync(spec_file_path, cloudquery_path)\<close>. The f-string of the
  message decodes the captured standard output, which can itself raise.
\<close>

definition run_xkcd_to_sqlite_sync :: "host \<Rightarrow> string \<Rightarrow> string \<Rightarrow> error + unit" where
  "run_xkcd_to_sqlite_sync h spec_file_path cloudquery_path =
     (case subprocess_run h [cloudquery_path, ''sync'', spec_file_path] of
        None \<Rightarrow> Inl OSError
      | Some result \<Rightarrow>
          if returncode result \<noteq> 0 then
            (case bytes_decode (stdout result) of
               Inl e \<Rightarrow> Inl e
             | Inr out \<Rightarrow>
                 Inl (Exception (''CloudQuery sync failed with return code ''
                        @ str_int (returncode result) @ ''. Output: '' @ out)))
          else Inr ())"

section \<open>Observations\<close>

text \<open>
  The cache path: the value of the local variable \<^verbatim>\<open>file_path\<close> of
  \<^verbatim>\<open>download_cloudquery\<close>, which the function computes before anything else.
\<close>

definition cache_file_path :: "host \<Rightarrow> string" where
  "cache_file_path h =
     os_path_join h (gettempdir h)
       (''cloudquery'' @ (if lower (platform_system h) = ''windows'' then ''.exe'' else ''''))"

text \<open>What a trace records: the URLs fetched, the permission changes, the commands run.\<close>

definition network_calls :: "state \<Rightarrow> string list" where
  "network_calls s = concat (map (\<lambda>e. case e of HttpGet u \<Rightarrow> [u] | _ \<Rightarrow> []) (trace s))"

definition chmod_calls :: "state \<Rightarrow> (string \<times> nat) list" where
  "chmod_calls s = concat (map (\<lambda>e. case e of Chmod p m \<Rightarrow> [(p, m)] | _ \<Rightarrow> []) (trace s))"

definition file_writes :: "state \<Rightarrow> (string \<times> bytes) list" where
  "file_writes s = concat (map (\<lambda>e. case e of Write p b \<Rightarrow> [(p, b)] | _ \<Rightarrow> []) (trace s))"

definition commands_run :: "state \<Rightarrow> string list" where
  "commands_run s = concat (map (\<lambda>e. case e of Popen c \<Rightarrow> [c] | _ \<Rightarrow> []) (trace s))"

definition log_lines :: "state \<Rightarrow> string list" where
  "log_lines s = concat (map (\<lambda>e. case e of Log m \<Rightarrow> [m] | _ \<Rightarrow> []) (trace s))"

section \<open>Example hosts and states\<close>

text \<open>
  The example hosts decode in UTF-8, the encoding of their locale.
  \<^verbatim>\<open>posixpath.join(a, b)\<close>, and \<^verbatim>\<open>ntpath.join(a, b)\<close> for an absolute directory
  \<open>a\<close> and a plain file name \<open>b\<close>, which is how the program calls it.
\<close>

definition posixpath_join :: "string \<Rightarrow> string \<Rightarrow> string" where
  "posixpath_join a b =
     (if take 1 b = ''/'' then b
      else if a = [] \<or> last a = CHR ''/'' then a @ b
      else a @ ''/'' @ b)"

definition ntpath_join :: "string \<Rightarrow> string \<Rightarrow> string" where
  "ntpath_join a b =
     (if a \<noteq> [] \<and> last a \<noteq> CHR 0x5C \<and> last a \<noteq> CHR ''/'' then a @ [CHR 0x5C] @ b
      else a @ b)"

text \<open>A release server that has the Linux amd64 binary of v6.4.1 and nothing else.\<close>

definition release_server :: "string \<Rightarrow> response option" where
  "release_server url =
     (if url = ''https://github.com/cloudquery/cloudquery/releases/download/cli-v6.4.1/cloudquery_linux_amd64''
      then Some \<lparr>status_code = 200, content = ''ELF''\<rparr>
      else Some \<lparr>status_code = 404, content = ''Not Found''\<rparr>)"

definition posix_host :: "string \<Rightarrow> string \<Rightarrow> host" where
  "posix_host sys mach =
     \<lparr>platform_system = sys, platform_machine = mach, gettempdir = ''/tmp'',
      os_path_join = posixpath_join, create_mode = octal [6, 4, 4],
      requests_get = release_server,
      os_popen = (\<lambda>cmd. \<lparr>printed = ''cloudquery version 6.4.1'' @ [CHR 0x0A], exit_status = 0\<rparr>),
      locale_decode = bytes_decode,
      subprocess_run = (\<lambda>args. Some \<lparr>returncode = 0, stdout = [], stderr = []\<rparr>)\<rparr>"

definition linux_host :: host where
  "linux_host = posix_host ''Linux'' ''x86_64''"

definition sunos_host :: host where
  "sunos_host = posix_host ''SunOS'' ''sun4v''"

definition riscv_host :: host where
  "riscv_host = posix_host ''Linux'' ''riscv64''"

definition windows_host :: host where
  "windows_host =
     \<lparr>platform_system = ''Windows'', platform_machine = ''AMD64'',
      gettempdir = ''C:'' @ [CHR 0x5C] @ ''Temp'',
      os_path_join = ntpath_join, create_mode = octal [6, 6, 6],
      requests_get = (\<lambda>url. Some \<lparr>status_code = 200, content = ''MZ''\<rparr>),
      os_popen = (\<lambda>cmd. \<lparr>printed = ''cloudquery version 6.4.1'' @ [CHR 0x0A], exit_status = 0\<rparr>),
      locale_decode = bytes_decode,
      subprocess_run = (\<lambda>args. Some \<lparr>returncode = 0, stdout = [], stderr = []\<rparr>)\<rparr>"

text \<open>
  A host without network, one where the downloaded binary cannot be run (the shell
  reports status 126 and nothing is printed), and one where the downloaded binary prints
  the single byte \<^verbatim>\<open>0xFF\<close> when asked for its version.
\<close>

definition offline_host :: host where
  "offline_host = linux_host\<lparr>requests_get := (\<lambda>url. None)\<rparr>"

definition broken_binary_host :: host where
  "broken_binary_host =
     linux_host\<lparr>os_popen := (\<lambda>cmd. \<lparr>printed = [], exit_status = 126\<rparr>)\<rparr>"

definition garbled_version_host :: host where
  "garbled_version_host =
     linux_host\<lparr>os_popen := (\<lambda>cmd. \<lparr>printed = [CHR 0xFF], exit_status = 0\<rparr>)\<rparr>"

text \<open>
  A host where the sync exits with code 1 after printing the single byte \<^verbatim>\<open>0xFF\<close>,
  and one where it exits with code 2 after printing a line of text.
\<close>

definition garbled_host :: host where
  "garbled_host =
     linux_host\<lparr>subprocess_run :=
       (\<lambda>args. Some \<lparr>returncode = 1, stdout = [CHR 0xFF], stderr = ''panic''\<rparr>)\<rparr>"

definition failing_sync_host :: host where
  "failing_sync_host =
     linux_host\<lparr>subprocess_run :=
       (\<lambda>args. Some \<lparr>returncode = 2, stdout = ''bad spec'', stderr = ''trace''\<rparr>)\<rparr>"

definition empty_cache :: state where
  "empty_cache = \<lparr>fs = Map.empty, trace = []\<rparr>"

definition filled_cache :: state where
  "filled_cache =
     \<lparr>fs = [''/tmp/cloudquery'' \<mapsto> \<lparr>data = ''ELF'', mode = octal [7, 5, 5]\<rparr>], trace = []\<rparr>"

text \<open>A cache directory that holds both a \<^verbatim>\<open>cloudquery\<close> and a \<^verbatim>\<open>cloudquery.exe\<close>.\<close>

definition two_files :: state where
  "two_files =
     \<lparr>fs = [''/tmp/cloudquery'' \<mapsto> \<lparr>data = ''ELF'', mode = octal [7, 5, 5]\<rparr>,
            ''/tmp/cloudquery.exe'' \<mapsto> \<lparr>data = ''MZ'', mode = octal [7, 5, 5]\<rparr>],
      trace = []\<rparr>"

section \<open>Basic facts\<close>

lemma lower_literals:
  "lower ''Linux'' = ''linux''" "lower ''x86_64'' = ''x86_64''" "lower ''SunOS'' = ''sunos''"
  "lower ''sun4v'' = ''sun4v''" "lower ''riscv64'' = ''riscv64''"
  "lower ''Windows'' = ''windows''" "lower ''AMD64'' = ''amd64''"
  by (simp_all add: lower_def lower_char_def)

lemma emit_simps [simp]:
  "trace (emit e s) = trace s @ [e]" "fs (emit e s) = fs s"
  by (simp_all add: emit_def)

lemma logger_info_simps [simp]:
  "trace (logger_info m s) = trace s @ [Log m]" "fs (logger_info m s) = fs s"
  by (simp_all add: logger_info_def)

lemma write_binary_simps [simp]:
  "trace (write_binary h p b s) = trace s @ [Write p b]"
  "fs (write_binary h p b s) =
     (fs s)(p \<mapsto> \<lparr>data = b, mode = (case fs s p of Some f \<Rightarrow> mode f | None \<Rightarrow> create_mode h)\<rparr>)"
  by (simp_all add: write_binary_def)

lemma observation_simps [simp]:
  "network_calls (emit e s) = network_calls s @ (case e of HttpGet u \<Rightarrow> [u] | _ \<Rightarrow> [])"
  "network_calls (logger_info m s) = network_calls s"
  "chmod_calls (emit e s) = chmod_calls s @ (case e of Chmod p m \<Rightarrow> [(p, m)] | _ \<Rightarrow> [])"
  "chmod_calls (logger_info m s) = chmod_calls s"
  "file_writes (emit e s) = file_writes s @ (case e of Write p b \<Rightarrow> [(p, b)] | _ \<Rightarrow> [])"
  "file_writes (logger_info m s) = file_writes s"
  "commands_run (emit e s) = commands_run s @ (case e of Popen c \<Rightarrow> [c] | _ \<Rightarrow> [])"
  "commands_run (logger_info m s) = commands_run s"
  by (simp_all add: network_calls_def chmod_calls_def file_writes_def commands_run_def)

text \<open>Right after the file was written, \<^verbatim>\<open>os.chmod\<close> on it cannot fail.\<close>

lemma os_chmod_written:
  "os_chmod p m (write_binary h p b s) =
     Inr (emit (Chmod p m) ((write_binary h p b s)\<lparr>fs := (fs s)(p \<mapsto>
            \<lparr>data = b, mode = m\<rparr>)\<rparr>))"
  by (simp add: os_chmod_def)

lemma raise_for_status_cases:
  "raise_for_status r =
     (if 400 \<le> status_code r \<and> status_code r < 600
      then Inl (HTTPError (status_code r)
                  (if status_code r < 500 then ''Client Error'' else ''Server Error''))
      else Inr ())"
  by (simp add: raise_for_status_def)

lemma status_ok_iff:
  "raise_for_status r = Inr () \<longleftrightarrow> \<not> (400 \<le> status_code r \<and> status_code r < 600)"
  by (simp add: raise_for_status_cases)

text \<open>
  The cache path depends on the temporary directory, on the path join and on whether the
  lower-cased system name is \<^verbatim>\<open>windows\<close>; on nothing else of the host.
\<close>

lemma same_path:
  assumes "gettempdir h' = gettempdir h" and "os_path_join h' = os_path_join h"
      and "(lower (platform_system h') = ''windows'') = (lower (platform_system h) = ''windows'')"
  shows "cache_file_path h' = cache_file_path h"
  unfolding cache_file_path_def assms(1) assms(2) using assms(3) by auto

lemma cache_file_path_machine [simp]:
  "cache_file_path (h\<lparr>platform_machine := m\<rparr>) = cache_file_path h"
  by (simp add: cache_file_path_def)

subsection \<open>The ways through \<open>download_cloudquery\<close>\<close>

lemma download_hit:
  assumes "os_path_exists s (cache_file_path h)"
  shows "download_cloudquery h s version =
           (Inr (cache_file_path h),
            logger_info (''File already exists at '' @ cache_file_path h @ '', skipping download.'') s)"
  using assms by (simp add: download_cloudquery_def cache_file_path_def Let_def)

lemma download_no_url:
  assumes "\<not> os_path_exists s (cache_file_path h)"
      and "get_cloudquery_download_url h version = Inl e"
  shows "download_cloudquery h s version = (Inl e, s)"
  using assms by (simp add: download_cloudquery_def cache_file_path_def Let_def)

lemma download_no_response:
  assumes "\<not> os_path_exists s (cache_file_path h)"
      and "get_cloudquery_download_url h version = Inr url"
      and "requests_get h url = None"
  shows "download_cloudquery h s version =
           (Inl RequestException,
            emit (HttpGet url)
              (logger_info (''Downloading '' @ url @ '' to '' @ cache_file_path h @ ''...'') s))"
  using assms by (simp add: download_cloudquery_def cache_file_path_def Let_def)

lemma download_bad_status:
  assumes "\<not> os_path_exists s (cache_file_path h)"
      and "get_cloudquery_download_url h version = Inr url"
      and "requests_get h url = Some r"
      and "raise_for_status r = Inl e"
  shows "download_cloudquery h s version =
           (Inl e,
            emit (HttpGet url)
              (logger_info (''Downloading '' @ url @ '' to '' @ cache_file_path h @ ''...'') s))"
  using assms by (simp add: download_cloudquery_def cache_file_path_def Let_def)

lemma download_written:
  assumes "\<not> os_path_exists s (cache_file_path h)"
      and "get_cloudquery_download_url h version = Inr url"
      and "requests_get h url = Some r"
      and "raise_for_status r = Inr ()"
  shows "fst (download_cloudquery h s version) =
           (case locale_decode h (printed (os_popen h (cache_file_path h @ '' --version''))) of
              Inl e \<Rightarrow> Inl e
            | Inr version_output \<Rightarrow> Inr (cache_file_path h))"
    and "fs (snd (download_cloudquery h s version)) =
           (fs s)(cache_file_path h \<mapsto>
              \<lparr>data = content r,
               mode = (if lower (platform_system h) \<noteq> ''windows'' then octal [7, 5, 5]
                       else create_mode h)\<rparr>)"
    and "trace (snd (download_cloudquery h s version)) =
           trace s
           @ [Log (''Downloading '' @ url @ '' to '' @ cache_file_path h @ ''...''),
              HttpGet url,
              Write (cache_file_path h) (content r)]
           @ (if lower (platform_system h) \<noteq> ''windows''
              then [Chmod (cache_file_path h) (octal [7, 5, 5]),
                    Log (''Set executable permissions on '' @ cache_file_path h)]
              else [])
           @ [Log ''Checking CloudQuery version...'',
              Popen (cache_file_path h @ '' --version'')]
           @ (case locale_decode h (printed (os_popen h (cache_file_path h @ '' --version''))) of
                Inl e \<Rightarrow> []
              | Inr version_output \<Rightarrow>
                  [Log (''CloudQuery version: '' @ strip version_output),
                   Log (''Downloaded to '' @ cache_file_path h)])"
  using assms
  by (cases "lower (platform_system h) = ''windows''";
      cases "locale_decode h (printed (os_popen h (cache_file_path h @ '' --version'')))";
      simp add: download_cloudquery_def cache_file_path_def Let_def os_chmod_written
        os_path_exists_def)+

text \<open>What the trace of such a run adds: one GET, one write, at most one \<^verbatim>\<open>chmod\<close>, one command.\<close>

lemma download_written_effects:
  assumes "\<not> os_path_exists s (cache_file_path h)"
      and "get_cloudquery_download_url h version = Inr url"
      and "requests_get h url = Some r"
      and "raise_for_status r = Inr ()"
  shows "network_calls (snd (download_cloudquery h s version)) = network_calls s @ [url]"
    and "file_writes (snd (download_cloudquery h s version)) =
           file_writes s @ [(cache_file_path h, content r)]"
    and "chmod_calls (snd (download_cloudquery h s version)) =
           chmod_calls s @ (if lower (platform_system h) \<noteq> ''windows''
                            then [(cache_file_path h, octal [7, 5, 5])] else [])"
    and "commands_run (snd (download_cloudquery h s version)) =
           commands_run s @ [cache_file_path h @ '' --version'']"
  by (cases "lower (platform_system h) = ''windows''";
      cases "locale_decode h (printed (os_popen h (cache_file_path h @ '' --version'')))";
      simp add: network_calls_def file_writes_def chmod_calls_def commands_run_def
        download_written(3) [OF assms])+

text \<open>A path is returned on a cache miss only when the download went through.\<close>

lemma download_ok_cases:
  assumes miss: "\<not> os_path_exists s (cache_file_path h)"
      and ok: "fst (download_cloudquery h s version) = Inr p"
  obtains url r where "get_cloudquery_download_url h version = Inr url"
      and "requests_get h url = Some r" and "raise_for_status r = Inr ()"
      and "p = cache_file_path h"
proof (cases "get_cloudquery_download_url h version")
  case (Inl e)
  with miss ok show ?thesis by (simp add: download_no_url)
next
  case (Inr url)
  show ?thesis
  proof (cases "requests_get h url")
    case None
    with miss ok Inr show ?thesis by (simp add: download_no_response)
  next
    case (Some r)
    show ?thesis
    proof (cases "raise_for_status r")
      case (Inl e)
      with miss ok Inr Some show ?thesis by (simp add: download_bad_status)
    next
      case r_ok: (Inr u)
      then have st: "raise_for_status r = Inr ()" by simp
      from ok download_written(1) [OF miss Inr Some st] have "p = cache_file_path h"
        by (simp split: sum.splits)
      with Inr Some st that show ?thesis by simp
    qed
  qed
qed

lemma download_returns_cache_path:
  assumes "fst (download_cloudquery h s version) = Inr p"
  shows "p = cache_file_path h"
proof (cases "os_path_exists s (cache_file_path h)")
  case True
  with assms show ?thesis by (simp add: download_hit)
next
  case False
  from False assms show ?thesis by (rule download_ok_cases)
qed

subsection \<open>The example hosts\<close>

lemma example_paths:
  "cache_file_path linux_host = ''/tmp/cloudquery''"
  "cache_file_path sunos_host = ''/tmp/cloudquery''"
  "cache_file_path riscv_host = ''/tmp/cloudquery''"
  "cache_file_path offline_host = ''/tmp/cloudquery''"
  "cache_file_path broken_binary_host = ''/tmp/cloudquery''"
  "cache_file_path garbled_version_host = ''/tmp/cloudquery''"
  "cache_file_path windows_host = ''C:'' @ [CHR 0x5C] @ ''Temp'' @ [CHR 0x5C] @ ''cloudquery.exe''"
  by (simp_all add: cache_file_path_def linux_host_def sunos_host_def riscv_host_def
        offline_host_def broken_binary_host_def garbled_version_host_def windows_host_def
        posix_host_def posixpath_join_def ntpath_join_def lower_literals)

lemma example_exists:
  "\<not> os_path_exists empty_cache p"
  "os_path_exists filled_cache ''/tmp/cloudquery''"
  by (simp_all add: os_path_exists_def empty_cache_def filled_cache_def)

lemma linux_url:
  "get_cloudquery_download_url linux_host version =
     Inr (''https://github.com/cloudquery/cloudquery/releases/download/cli-'' @ version
          @ ''/cloudquery_linux_amd64'')"
  "get_cloudquery_download_url offline_host version =
     Inr (''https://github.com/cloudquery/cloudquery/releases/download/cli-'' @ version
          @ ''/cloudquery_linux_amd64'')"
  "get_cloudquery_download_url broken_binary_host version =
     Inr (''https://github.com/cloudquery/cloudquery/releases/download/cli-'' @ version
          @ ''/cloudquery_linux_amd64'')"
  "get_cloudquery_download_url garbled_version_host version =
     Inr (''https://github.com/cloudquery/cloudquery/releases/download/cli-'' @ version
          @ ''/cloudquery_linux_amd64'')"
  by (simp_all add: get_cloudquery_download_url_def linux_host_def offline_host_def
        broken_binary_host_def garbled_version_host_def posix_host_def lower_literals)

lemma windows_url:
  "get_cloudquery_download_url windows_host version =
     Inr (''https://github.com/cloudquery/cloudquery/releases/download/cli-'' @ version
          @ ''/cloudquery_windows_amd64.exe'')"
  by (simp add: get_cloudquery_download_url_def windows_host_def lower_literals)

lemma linux_responses:
  "requests_get linux_host
     ''https://github.com/cloudquery/cloudquery/releases/download/cli-v6.4.1/cloudquery_linux_amd64'' =
   Some \<lparr>status_code = 200, content = ''ELF''\<rparr>"
  "requests_get linux_host
     ''https://github.com/cloudquery/cloudquery/releases/download/cli-v0.0.0/cloudquery_linux_amd64'' =
   Some \<lparr>status_code = 404, content = ''Not Found''\<rparr>"
  "requests_get broken_binary_host
     ''https://github.com/cloudquery/cloudquery/releases/download/cli-v6.4.1/cloudquery_linux_amd64'' =
   Some \<lparr>status_code = 200, content = ''ELF''\<rparr>"
  "requests_get offline_host url = None"
  "requests_get garbled_version_host
     ''https://github.com/cloudquery/cloudquery/releases/download/cli-v6.4.1/cloudquery_linux_amd64'' =
   Some \<lparr>status_code = 200, content = ''ELF''\<rparr>"
  by (simp_all add: linux_host_def offline_host_def broken_binary_host_def garbled_version_host_def
        posix_host_def release_server_def)

lemma example_version_output:
  "locale_decode linux_host (printed (os_popen linux_host c)) =
     Inr (''cloudquery version 6.4.1'' @ [CHR 0x0A])"
  "locale_decode windows_host (printed (os_popen windows_host c)) =
     Inr (''cloudquery version 6.4.1'' @ [CHR 0x0A])"
  "locale_decode broken_binary_host (printed (os_popen broken_binary_host c)) = Inr []"
  "locale_decode garbled_version_host (printed (os_popen garbled_version_host c)) =
     Inl UnicodeDecodeError"
  by (simp_all add: linux_host_def windows_host_def broken_binary_host_def
        garbled_version_host_def posix_host_def bytes_decode_def)

lemma fresh_download_examples:
  "fst (download_cloudquery linux_host empty_cache ''v6.4.1'') = Inr ''/tmp/cloudquery''"
  "fst (download_cloudquery broken_binary_host empty_cache ''v6.4.1'') = Inr ''/tmp/cloudquery''"
  "fst (download_cloudquery windows_host empty_cache ''v6.4.1'') =
     Inr (''C:'' @ [CHR 0x5C] @ ''Temp'' @ [CHR 0x5C] @ ''cloudquery.exe'')"
proof -
  have url: "get_cloudquery_download_url linux_host ''v6.4.1'' =
     Inr ''https://github.com/cloudquery/cloudquery/releases/download/cli-v6.4.1/cloudquery_linux_amd64''"
    "get_cloudquery_download_url broken_binary_host ''v6.4.1'' =
     Inr ''https://github.com/cloudquery/cloudquery/releases/download/cli-v6.4.1/cloudquery_linux_amd64''"
    by (simp_all add: linux_url)
  show "fst (download_cloudquery linux_host empty_cache ''v6.4.1'') = Inr ''/tmp/cloudquery''"
    using download_written(1) [OF _ url(1) linux_responses(1)]
    by (simp add: example_exists example_paths raise_for_status_def example_version_output)
  show "fst (download_cloudquery broken_binary_host empty_cache ''v6.4.1'') = Inr ''/tmp/cloudquery''"
    using download_written(1) [OF _ url(2) linux_responses(3)]
    by (simp add: example_exists example_paths raise_for_status_def example_version_output)
  have "requests_get windows_host u = Some \<lparr>status_code = 200, content = ''MZ''\<rparr>" for u
    by (simp add: windows_host_def)
  from download_written(1) [OF _ windows_url this]
  show "fst (download_cloudquery windows_host empty_cache ''v6.4.1'') =
     Inr (''C:'' @ [CHR 0x5C] @ ''Temp'' @ [CHR 0x5C] @ ''cloudquery.exe'')"
    by (simp add: example_exists example_paths raise_for_status_def example_version_output)
qed

section \<open>The download URL\<close>

text \<open>
  C1. For every version string and every host whose lower-cased system name is one of
  \<^verbatim>\<open>darwin\<close>, \<^verbatim>\<open>linux\<close>, \<^verbatim>\<open>windows\<close> and whose lower-cased machine name is one of
  \<^verbatim>\<open>x86_64\<close>, \<^verbatim>\<open>amd64\<close>, \<^verbatim>\<open>aarch64\<close>, \<^verbatim>\<open>arm64\<close>, the URL construction returns
  exactly \<^verbatim>\<open>https://github.com/cloudquery/cloudquery/releases/download/cli-<version>/cloudquery_<os>_<arch>\<close>,
  where \<^verbatim>\<open>x86_64\<close> and \<^verbatim>\<open>amd64\<close> give \<^verbatim>\<open>amd64\<close>, \<^verbatim>\<open>aarch64\<close> and \<^verbatim>\<open>arm64\<close>
  give \<^verbatim>\<open>arm64\<close>, and \<^verbatim>\<open>.exe\<close> is appended exactly when the system is
  \<^verbatim>\<open>windows\<close>. The right-hand side mentions the system name, the machine name and the
  version only: the URL is a function of these three alone.
\<close>

theorem download_url_exact:
  assumes "lower (platform_system h) = os"
      and "os \<in> {''darwin'', ''linux'', ''windows''}"
      and "lower (platform_machine h) = a"
      and "a \<in> {''x86_64'', ''amd64'', ''aarch64'', ''arm64''}"
  shows "get_cloudquery_download_url h version =
           Inr (''https://github.com/cloudquery/cloudquery/releases/download/cli-'' @ version
                @ ''/cloudquery_'' @ os @ ''_''
                @ (if a \<in> {''x86_64'', ''amd64''} then ''amd64'' else ''arm64'')
                @ (if os = ''windows'' then ''.exe'' else ''''))"
  using assms unfolding get_cloudquery_download_url_def by auto

text \<open>The example of the specification: version \<^verbatim>\<open>v6.4.1\<close> on a Linux x86_64 host.\<close>

theorem download_url_exact_witness:
  "lower (platform_system linux_host) = ''linux''
   \<and> ''linux'' \<in> {''darwin'', ''linux'', ''windows''}
   \<and> lower (platform_machine linux_host) = ''x86_64''
   \<and> ''x86_64'' \<in> {''x86_64'', ''amd64'', ''aarch64'', ''arm64''}
   \<and> get_cloudquery_download_url linux_host ''v6.4.1'' =
       Inr ''https://github.com/cloudquery/cloudquery/releases/download/cli-v6.4.1/cloudquery_linux_amd64''"
  using download_url_exact [of linux_host "''linux''" "''x86_64''" "''v6.4.1''"]
  by (simp add: linux_host_def posix_host_def lower_literals)

section \<open>Unsupported platforms\<close>

text \<open>
  C2 says that on every host with an unrecognised system or machine name
  \<^verbatim>\<open>download_cloudquery\<close> fails. It does not when the cache file is there: the
  existence check of line 82 returns before \<^verbatim>\<open>_get_cloudquery_download_url\<close> is
  called. On a SunOS host with a file at \<^verbatim>\<open>/tmp/cloudquery\<close> the path is returned.
\<close>

theorem unsupported_platform_counterexample:
  "lower (platform_system sunos_host) \<notin> {''darwin'', ''linux'', ''windows''}
   \<and> fst (download_cloudquery sunos_host filled_cache ''v6.4.1'') = Inr ''/tmp/cloudquery''"
  by (simp add: download_hit example_paths example_exists)
     (simp add: sunos_host_def posix_host_def lower_literals)

text \<open>
  C2, amended. For every host whose lower-cased system name is not one of \<^verbatim>\<open>darwin\<close>,
  \<^verbatim>\<open>linux\<close>, \<^verbatim>\<open>windows\<close>, or whose lower-cased machine name is not one of
  \<^verbatim>\<open>x86_64\<close>, \<^verbatim>\<open>amd64\<close>, \<^verbatim>\<open>aarch64\<close>, \<^verbatim>\<open>arm64\<close>, and with no file at the cache
  path, \<^verbatim>\<open>download_cloudquery\<close> raises \<^verbatim>\<open>ValueError\<close> with a message that names the
  offending lower-cased value (the system name when it is unrecognised, the machine name
  otherwise). The state is the one it started from: nothing was logged, fetched or written.
\<close>

theorem unsupported_platform_fails_on_cache_miss:
  assumes "\<not> os_path_exists s (cache_file_path h)"
      and "lower (platform_system h) \<notin> {''darwin'', ''linux'', ''windows''}
           \<or> lower (platform_machine h) \<notin> {''x86_64'', ''amd64'', ''aarch64'', ''arm64''}"
  shows "download_cloudquery h s version =
           (Inl (ValueError
                  (if lower (platform_system h) \<notin> {''darwin'', ''linux'', ''windows''}
                   then ''Unsupported system: '' @ lower (platform_system h)
                   else ''Unsupported architecture: '' @ lower (platform_machine h))), s)"
proof -
  have "get_cloudquery_download_url h version =
          Inl (ValueError
                  (if lower (platform_system h) \<notin> {''darwin'', ''linux'', ''windows''}
                   then ''Unsupported system: '' @ lower (platform_system h)
                   else ''Unsupported architecture: '' @ lower (platform_machine h)))"
    using assms(2) unfolding get_cloudquery_download_url_def by auto
  with assms(1) show ?thesis by (rule download_no_url)
qed

text \<open>The example of the specification: machine \<^verbatim>\<open>riscv64\<close>, empty cache.\<close>

theorem unsupported_platform_fails_on_cache_miss_witness:
  "\<not> os_path_exists empty_cache (cache_file_path riscv_host)
   \<and> lower (platform_machine riscv_host) \<notin> {''x86_64'', ''amd64'', ''aarch64'', ''arm64''}
   \<and> download_cloudquery riscv_host empty_cache ''v6.4.1'' =
       (Inl (ValueError ''Unsupported architecture: riscv64''), empty_cache)"
  using unsupported_platform_fails_on_cache_miss [of empty_cache riscv_host "''v6.4.1''"]
  by (simp add: example_exists) (simp add: riscv_host_def posix_host_def lower_literals)

section \<open>The sync runner\<close>

text \<open>
  What \<^verbatim>\<open>run_xkcd_to_sqlite_sync\<close> does once the child process has run: it returns
  normally exactly when the exit code is zero; with a non-zero exit code and a standard
  output that is well-formed UTF-8 it raises \<^verbatim>\<open>Exception\<close> with the exit code and
  that output in the message; with a non-zero exit code and any other output it raises
  \<^verbatim>\<open>UnicodeDecodeError\<close>. The standard error is never looked at.
\<close>

lemma sync_runner_result:
  assumes "subprocess_run h [cloudquery_path, ''sync'', spec_file_path] = Some r"
  shows "(returncode r = 0 \<longrightarrow> run_xkcd_to_sqlite_sync h spec_file_path cloudquery_path = Inr ())
         \<and> (returncode r \<noteq> 0 \<longrightarrow> (\<exists>e. run_xkcd_to_sqlite_sync h spec_file_path cloudquery_path = Inl e))
         \<and> (returncode r \<noteq> 0 \<and> utf8_valid (stdout r) \<longrightarrow>
              run_xkcd_to_sqlite_sync h spec_file_path cloudquery_path =
                Inl (Exception (''CloudQuery sync failed with return code '' @ str_int (returncode r)
                                 @ ''. Output: '' @ stdout r)))
         \<and> (returncode r \<noteq> 0 \<and> \<not> utf8_valid (stdout r) \<longrightarrow>
              run_xkcd_to_sqlite_sync h spec_file_path cloudquery_path = Inl UnicodeDecodeError)"
  using assms by (simp add: run_xkcd_to_sqlite_sync_def bytes_decode_def)

lemma sync_runner_example:
  "run_xkcd_to_sqlite_sync failing_sync_host ''sync_spec.yml'' ''/tmp/cloudquery'' =
     Inl (Exception ''CloudQuery sync failed with return code 2. Output: bad spec'')"
  "run_xkcd_to_sqlite_sync linux_host ''sync_spec.yml'' ''/tmp/cloudquery'' = Inr ()"
  by (simp_all add: run_xkcd_to_sqlite_sync_def failing_sync_host_def linux_host_def posix_host_def
        bytes_decode_def str_int_def)

text \<open>
  C3 says that the message of the raised error always contains the exit code and the
  captured standard output. When the child exits with code 1 after printing the byte
  \<^verbatim>\<open>0xFF\<close>, \<^verbatim>\<open>result.stdout.decode()\<close> raises while the message is being built:
  the error that leaves the function is a \<^verbatim>\<open>UnicodeDecodeError\<close>, which carries
  neither the exit code nor the output.
\<close>

theorem sync_error_lost_on_undecodable_output:
  "run_xkcd_to_sqlite_sync garbled_host ''sync_spec.yml'' ''/tmp/cloudquery'' = Inl UnicodeDecodeError"
  by (simp add: run_xkcd_to_sqlite_sync_def garbled_host_def bytes_decode_def)

section \<open>The cache\<close>

text \<open>
  C4. If a file exists at the cache path, \<^verbatim>\<open>download_cloudquery\<close> returns that path,
  for every version, without a network call and without touching the file system; a
  second call right after it (for any version) returns the same path, and after both
  calls the file system, the list of network calls, of file writes, of permission
  changes and of commands run are what they were.
\<close>

theorem cached_resolver_idempotent:
  assumes "os_path_exists s (cache_file_path h)"
  shows "(let (r1, s1) = download_cloudquery h s version;
              (r2, s2) = download_cloudquery h s1 version'
          in r1 = Inr (cache_file_path h) \<and> r2 = r1
             \<and> fs s1 = fs s \<and> fs s2 = fs s
             \<and> network_calls s1 = network_calls s \<and> network_calls s2 = network_calls s
             \<and> file_writes s2 = file_writes s \<and> chmod_calls s2 = chmod_calls s
             \<and> commands_run s2 = commands_run s)"
proof -
  let ?m = "''File already exists at '' @ cache_file_path h @ '', skipping download.''"
  have first: "download_cloudquery h s version = (Inr (cache_file_path h), logger_info ?m s)"
    using assms by (rule download_hit)
  have "os_path_exists (logger_info ?m s) (cache_file_path h)"
    using assms by (simp add: os_path_exists_def)
  then have "download_cloudquery h (logger_info ?m s) version' =
               (Inr (cache_file_path h), logger_info ?m (logger_info ?m s))"
    by (rule download_hit)
  with first show ?thesis by simp
qed

theorem cached_resolver_idempotent_witness:
  "os_path_exists filled_cache (cache_file_path linux_host)
   \<and> fst (download_cloudquery linux_host filled_cache ''v6.4.1'') = Inr ''/tmp/cloudquery''
   \<and> fst (download_cloudquery linux_host
             (snd (download_cloudquery linux_host filled_cache ''v6.4.1'')) ''v6.5.0'') =
       Inr ''/tmp/cloudquery''
   \<and> network_calls (snd (download_cloudquery linux_host
             (snd (download_cloudquery linux_host filled_cache ''v6.4.1'')) ''v6.5.0'')) = []
   \<and> fs (snd (download_cloudquery linux_host
             (snd (download_cloudquery linux_host filled_cache ''v6.4.1'')) ''v6.5.0'')) =
       fs filled_cache"
  using cached_resolver_idempotent [of filled_cache linux_host "''v6.4.1''" "''v6.5.0''"]
  by (simp add: example_paths example_exists split_beta Let_def)
     (simp add: network_calls_def filled_cache_def)

text \<open>
  C5. Whenever \<^verbatim>\<open>download_cloudquery\<close> returns a path, on the cache hit as after a
  fresh download, the path is the temporary directory joined with \<^verbatim>\<open>cloudquery\<close>, with
  \<^verbatim>\<open>.exe\<close> appended exactly when the lower-cased system name is \<^verbatim>\<open>windows\<close>. The
  version and the machine name do not occur in it: every other successful call on the
  host, for any version, from any state and with any machine name, returns the same path.
\<close>

theorem cache_path_shape:
  assumes "fst (download_cloudquery h s version) = Inr p"
  shows "p = os_path_join h (gettempdir h)
               (''cloudquery'' @ (if lower (platform_system h) = ''windows'' then ''.exe'' else ''''))
         \<and> (\<forall>m s' version' p'.
               fst (download_cloudquery (h\<lparr>platform_machine := m\<rparr>) s' version') = Inr p'
               \<longrightarrow> p' = p)"
proof -
  have p: "p = cache_file_path h"
    using assms by (rule download_returns_cache_path)
  have "p' = p" if "fst (download_cloudquery (h\<lparr>platform_machine := m\<rparr>) s' version') = Inr p'"
    for m s' version' p'
    using download_returns_cache_path [OF that] p by simp
  with p show ?thesis by (simp add: cache_file_path_def)
qed

theorem cache_path_shape_witness:
  "fst (download_cloudquery linux_host empty_cache ''v6.4.1'') = Inr ''/tmp/cloudquery''
   \<and> fst (download_cloudquery linux_host filled_cache ''v6.4.0'') = Inr ''/tmp/cloudquery''
   \<and> ''/tmp/cloudquery'' =
       os_path_join linux_host (gettempdir linux_host)
         (''cloudquery'' @ (if lower (platform_system linux_host) = ''windows'' then ''.exe'' else ''''))"
proof -
  note fresh = fresh_download_examples(1)
  have hit: "fst (download_cloudquery linux_host filled_cache ''v6.4.0'') = Inr ''/tmp/cloudquery''"
    by (simp add: download_hit example_paths example_exists)
  from fresh hit cache_path_shape [OF fresh] show ?thesis by simp
qed

section \<open>The download\<close>

text \<open>
  C6. On a cache miss, with \<open>url\<close> the URL constructed for the host and the version,
  \<^verbatim>\<open>download_cloudquery\<close> performs one HTTP GET, on \<open>url\<close>. If the response has a
  status code from 400 to 599 it raises the \<^verbatim>\<open>HTTPError\<close> of \<^verbatim>\<open>raise_for_status\<close>,
  and nothing is written. For any other status the file at the cache path holds, when
  the function ends, exactly the bytes of the response body, written in one write.
\<close>

theorem cache_miss_fetches_url:
  assumes miss: "\<not> os_path_exists s (cache_file_path h)"
      and url: "get_cloudquery_download_url h version = Inr url"
  shows "network_calls (snd (download_cloudquery h s version)) = network_calls s @ [url]
         \<and> (\<forall>r. requests_get h url = Some r \<and> 400 \<le> status_code r \<and> status_code r < 600
                \<longrightarrow> fst (download_cloudquery h s version) =
                      Inl (HTTPError (status_code r)
                             (if status_code r < 500 then ''Client Error'' else ''Server Error''))
                    \<and> file_writes (snd (download_cloudquery h s version)) = file_writes s)
         \<and> (\<forall>r. requests_get h url = Some r \<and> \<not> (400 \<le> status_code r \<and> status_code r < 600)
                \<longrightarrow> map_option data (fs (snd (download_cloudquery h s version)) (cache_file_path h)) =
                        Some (content r)
                    \<and> file_writes (snd (download_cloudquery h s version)) =
                        file_writes s @ [(cache_file_path h, content r)])"
proof (cases "requests_get h url")
  case None
  with miss url show ?thesis by (simp add: download_no_response)
next
  case (Some r)
  show ?thesis
  proof (cases "400 \<le> status_code r \<and> status_code r < 600")
    case True
    then have "raise_for_status r =
                 Inl (HTTPError (status_code r)
                        (if status_code r < 500 then ''Client Error'' else ''Server Error''))"
      by (simp add: raise_for_status_cases)
    from download_bad_status [OF miss url Some this] Some True show ?thesis by simp
  next
    case False
    then have ok: "raise_for_status r = Inr ()" by (simp add: status_ok_iff)
    from download_written(2) [OF miss url Some ok] download_written_effects(1,2) [OF miss url Some ok]
      Some False
    show ?thesis by simp
  qed
qed

text \<open>
  On the Linux host with an empty cache: version \<^verbatim>\<open>v6.4.1\<close> is served with status 200
  and lands in \<^verbatim>\<open>/tmp/cloudquery\<close>, version \<^verbatim>\<open>v0.0.0\<close> is answered with status 404.
\<close>

theorem cache_miss_fetches_url_witness:
  "\<not> os_path_exists empty_cache (cache_file_path linux_host)
   \<and> get_cloudquery_download_url linux_host ''v6.4.1'' =
       Inr ''https://github.com/cloudquery/cloudquery/releases/download/cli-v6.4.1/cloudquery_linux_amd64''
   \<and> network_calls (snd (download_cloudquery linux_host empty_cache ''v6.4.1'')) =
       [''https://github.com/cloudquery/cloudquery/releases/download/cli-v6.4.1/cloudquery_linux_amd64'']
   \<and> map_option data (fs (snd (download_cloudquery linux_host empty_cache ''v6.4.1'')) ''/tmp/cloudquery'') =
       Some ''ELF''
   \<and> file_writes (snd (download_cloudquery linux_host empty_cache ''v6.4.1'')) =
       [(''/tmp/cloudquery'', ''ELF'')]
   \<and> get_cloudquery_download_url linux_host ''v0.0.0'' =
       Inr ''https://github.com/cloudquery/cloudquery/releases/download/cli-v0.0.0/cloudquery_linux_amd64''
   \<and> fst (download_cloudquery linux_host empty_cache ''v0.0.0'') = Inl (HTTPError 404 ''Client Error'')
   \<and> file_writes (snd (download_cloudquery linux_host empty_cache ''v0.0.0'')) = []"
  using cache_miss_fetches_url [of empty_cache linux_host "''v6.4.1''"
          "''https://github.com/cloudquery/cloudquery/releases/download/cli-v6.4.1/cloudquery_linux_amd64''"]
        cache_miss_fetches_url [of empty_cache linux_host "''v0.0.0''"
          "''https://github.com/cloudquery/cloudquery/releases/download/cli-v0.0.0/cloudquery_linux_amd64''"]
  by (simp add: example_exists example_paths linux_url linux_responses)
     (simp add: network_calls_def file_writes_def empty_cache_def)



section \<open>The cache hit and the platform\<close>

text \<open>
  C8 says that on a cache hit the path is returned without any platform detection. The
  system name is read on line 77, before the existence check, to choose the suffix of
  the cache path, and the returned path depends on it: with both \<^verbatim>\<open>/tmp/cloudquery\<close>
  and \<^verbatim>\<open>/tmp/cloudquery.exe\<close> in place, two hosts that differ in the system name
  alone both take the cache-hit branch and return different paths.
\<close>

theorem cache_hit_reads_system_counterexample:
  "os_path_exists two_files (cache_file_path linux_host)
   \<and> os_path_exists two_files (cache_file_path (linux_host\<lparr>platform_system := ''Windows''\<rparr>))
   \<and> fst (download_cloudquery linux_host two_files ''v6.4.1'') = Inr ''/tmp/cloudquery''
   \<and> fst (download_cloudquery (linux_host\<lparr>platform_system := ''Windows''\<rparr>) two_files ''v6.4.1'') =
       Inr ''/tmp/cloudquery.exe''"
proof -
  have paths: "cache_file_path linux_host = ''/tmp/cloudquery''"
    "cache_file_path (linux_host\<lparr>platform_system := ''Windows''\<rparr>) = ''/tmp/cloudquery.exe''"
    by (simp_all add: cache_file_path_def linux_host_def posix_host_def posixpath_join_def
          lower_literals)
  have there: "os_path_exists two_files ''/tmp/cloudquery''"
    "os_path_exists two_files ''/tmp/cloudquery.exe''"
    by (simp_all add: os_path_exists_def two_files_def)
  then show ?thesis by (simp add: download_hit paths)
qed

text \<open>
  C8, amended. For every version string, if a file exists at the cache path then
  \<^verbatim>\<open>download_cloudquery\<close> returns that path without validating the platform: whatever
  the system and machine names are, recognised or not, it raises no error. The machine
  name is not read at all, and the system name only decides the \<^verbatim>\<open>.exe\<close> suffix: any
  host with the same temporary directory, the same path join and the same answer to
  whether the lower-cased system name is \<^verbatim>\<open>windows\<close> gives the same result and state.
\<close>

theorem cache_hit_skips_platform_validation:
  assumes hit: "os_path_exists s (cache_file_path h)"
  shows "fst (download_cloudquery h s version) = Inr (cache_file_path h)
         \<and> (\<forall>h'. gettempdir h' = gettempdir h \<and> os_path_join h' = os_path_join h
                  \<and> (lower (platform_system h') = ''windows'')
                      = (lower (platform_system h) = ''windows'')
                \<longrightarrow> download_cloudquery h' s version = download_cloudquery h s version)"
proof (intro conjI allI impI)
  show "fst (download_cloudquery h s version) = Inr (cache_file_path h)"
    by (simp add: download_hit [OF hit])
next
  fix h' :: host
  assume "gettempdir h' = gettempdir h \<and> os_path_join h' = os_path_join h
          \<and> (lower (platform_system h') = ''windows'')
              = (lower (platform_system h) = ''windows'')"
  then have same: "cache_file_path h' = cache_file_path h"
    by (intro same_path) simp_all
  with hit have "os_path_exists s (cache_file_path h')" by simp
  from download_hit [OF this] download_hit [OF hit] same
  show "download_cloudquery h' s version = download_cloudquery h s version" by simp
qed

text \<open>A host with the unrecognised machine name \<^verbatim>\<open>riscv64\<close> and a filled cache.\<close>

theorem cache_hit_skips_platform_validation_witness:
  "os_path_exists filled_cache (cache_file_path riscv_host)
   \<and> lower (platform_machine riscv_host) \<notin> {''x86_64'', ''amd64'', ''aarch64'', ''arm64''}
   \<and> fst (download_cloudquery riscv_host filled_cache ''v6.4.1'') = Inr ''/tmp/cloudquery''"
  using cache_hit_skips_platform_validation [of filled_cache riscv_host "''v6.4.1''", THEN conjunct1]
  by (simp add: example_paths example_exists)
     (simp add: riscv_host_def posix_host_def lower_literals)

section \<open>Failed downloads\<close>

text \<open>
  C9. On a cache miss with a constructed URL, if the HTTP GET fails, because
  \<^verbatim>\<open>requests.get\<close> raises or because the status code is from 400 to 599, then
  \<^verbatim>\<open>download_cloudquery\<close> raises that error, the file system is what it was, nothing was
  written, and there is still no file at the cache path.
\<close>

theorem failed_download_leaves_no_file:
  assumes miss: "\<not> os_path_exists s (cache_file_path h)"
      and url: "get_cloudquery_download_url h version = Inr url"
      and fail: "requests_get h url = None
                 \<or> (\<exists>r. requests_get h url = Some r \<and> 400 \<le> status_code r \<and> status_code r < 600)"
  shows "fst (download_cloudquery h s version) =
           Inl (case requests_get h url of
                  None \<Rightarrow> RequestException
                | Some r \<Rightarrow> HTTPError (status_code r)
                             (if status_code r < 500 then ''Client Error'' else ''Server Error''))
         \<and> fs (snd (download_cloudquery h s version)) = fs s
         \<and> file_writes (snd (download_cloudquery h s version)) = file_writes s
         \<and> \<not> os_path_exists (snd (download_cloudquery h s version)) (cache_file_path h)"
proof (cases "requests_get h url")
  case None
  from download_no_response [OF miss url None] None miss show ?thesis
    by (simp add: os_path_exists_def)
next
  case (Some r)
  with fail have "400 \<le> status_code r \<and> status_code r < 600" by simp
  then have "raise_for_status r =
               Inl (HTTPError (status_code r)
                      (if status_code r < 500 then ''Client Error'' else ''Server Error''))"
    by (simp add: raise_for_status_cases)
  from download_bad_status [OF miss url Some this] Some miss show ?thesis
    by (simp add: os_path_exists_def)
qed

text \<open>A host without network, and the Linux host asking for a version that is not there.\<close>

theorem failed_download_leaves_no_file_witness:
  "\<not> os_path_exists empty_cache (cache_file_path offline_host)
   \<and> get_cloudquery_download_url offline_host ''v6.4.1'' =
       Inr ''https://github.com/cloudquery/cloudquery/releases/download/cli-v6.4.1/cloudquery_linux_amd64''
   \<and> requests_get offline_host
        ''https://github.com/cloudquery/cloudquery/releases/download/cli-v6.4.1/cloudquery_linux_amd64'' = None
   \<and> fst (download_cloudquery offline_host empty_cache ''v6.4.1'') = Inl RequestException
   \<and> fs (snd (download_cloudquery offline_host empty_cache ''v6.4.1'')) = fs empty_cache
   \<and> get_cloudquery_download_url linux_host ''v0.0.0'' =
       Inr ''https://github.com/cloudquery/cloudquery/releases/download/cli-v0.0.0/cloudquery_linux_amd64''
   \<and> requests_get linux_host
        ''https://github.com/cloudquery/cloudquery/releases/download/cli-v0.0.0/cloudquery_linux_amd64'' =
       Some \<lparr>status_code = 404, content = ''Not Found''\<rparr>
   \<and> fst (download_cloudquery linux_host empty_cache ''v0.0.0'') = Inl (HTTPError 404 ''Client Error'')
   \<and> fs (snd (download_cloudquery linux_host empty_cache ''v0.0.0'')) = fs empty_cache"
proof -
  have u1: "get_cloudquery_download_url offline_host ''v6.4.1'' =
       Inr ''https://github.com/cloudquery/cloudquery/releases/download/cli-v6.4.1/cloudquery_linux_amd64''"
    and u2: "get_cloudquery_download_url linux_host ''v0.0.0'' =
       Inr ''https://github.com/cloudquery/cloudquery/releases/download/cli-v0.0.0/cloudquery_linux_amd64''"
    by (simp_all add: linux_url)
  have f1: "requests_get offline_host
        ''https://github.com/cloudquery/cloudquery/releases/download/cli-v6.4.1/cloudquery_linux_amd64'' = None
      \<or> (\<exists>r. requests_get offline_host
        ''https://github.com/cloudquery/cloudquery/releases/download/cli-v6.4.1/cloudquery_linux_amd64'' = Some r
          \<and> 400 \<le> status_code r \<and> status_code r < 600)"
    by (simp add: linux_responses)
  have f2: "requests_get linux_host
        ''https://github.com/cloudquery/cloudquery/releases/download/cli-v0.0.0/cloudquery_linux_amd64'' = None
      \<or> (\<exists>r. requests_get linux_host
        ''https://github.com/cloudquery/cloudquery/releases/download/cli-v0.0.0/cloudquery_linux_amd64'' = Some r
          \<and> 400 \<le> status_code r \<and> status_code r < 600)"
    by (simp add: linux_responses)
  note a = failed_download_leaves_no_file [OF example_exists(1) u1 f1]
  note b = failed_download_leaves_no_file [OF example_exists(1) u2 f2]
  from a have a1: "fst (download_cloudquery offline_host empty_cache ''v6.4.1'') = Inl RequestException"
    by (simp add: linux_responses)
  from a have a2: "fs (snd (download_cloudquery offline_host empty_cache ''v6.4.1'')) = fs empty_cache"
    by (rule conjunct1 [OF conjunct2])
  from b have b1: "fst (download_cloudquery linux_host empty_cache ''v0.0.0'') =
      Inl (HTTPError 404 ''Client Error'')"
    by (simp add: linux_responses)
  from b have b2: "fs (snd (download_cloudquery linux_host empty_cache ''v0.0.0'')) = fs empty_cache"
    by (rule conjunct1 [OF conjunct2])
  show ?thesis
    by (intro conjI example_exists u1 u2 a1 a2 b1 b2 linux_responses)
qed

section \<open>The version check\<close>

text \<open>
  What the version check does after a fresh download (cache miss, URL constructed,
  response with a status outside 400 to 599): the command \<^verbatim>\<open><cache path> --version\<close>
  is run; when what it printed decodes, the stripped text is logged after
  \<^verbatim>\<open>CloudQuery version: \<close> and the cache path is returned, whatever the exit status of
  the command, which does not occur in the result; when it does not decode, the decoding
  error leaves the function.
\<close>

lemma version_check_result:
  assumes miss: "\<not> os_path_exists s (cache_file_path h)"
      and url: "get_cloudquery_download_url h version = Inr url"
      and resp: "requests_get h url = Some r"
      and ok: "\<not> (400 \<le> status_code r \<and> status_code r < 600)"
  shows "commands_run (snd (download_cloudquery h s version)) =
           commands_run s @ [cache_file_path h @ '' --version'']
         \<and> fst (download_cloudquery h s version) =
             (case locale_decode h (printed (os_popen h (cache_file_path h @ '' --version''))) of
                Inl e \<Rightarrow> Inl e
              | Inr version_output \<Rightarrow> Inr (cache_file_path h))
         \<and> (\<forall>t. locale_decode h (printed (os_popen h (cache_file_path h @ '' --version''))) = Inr t
                \<longrightarrow> ''CloudQuery version: '' @ strip t
                      \<in> set (log_lines (snd (download_cloudquery h s version))))"
proof -
  from ok have st: "raise_for_status r = Inr ()" by (simp add: status_ok_iff)
  note w = download_written [OF miss url resp st]
  have "''CloudQuery version: '' @ strip t \<in> set (log_lines (snd (download_cloudquery h s version)))"
    if "locale_decode h (printed (os_popen h (cache_file_path h @ '' --version''))) = Inr t" for t
    using that by (simp add: log_lines_def w(3))
  with w(1) download_written_effects(4) [OF miss url resp st] show ?thesis by blast
qed

text \<open>A binary that cannot be run (status 126, nothing printed) does not stop the function.\<close>

lemma version_check_example:
  "exit_status (os_popen broken_binary_host ''/tmp/cloudquery --version'') = 126"
  "fst (download_cloudquery broken_binary_host empty_cache ''v6.4.1'') = Inr ''/tmp/cloudquery''"
  by (simp_all add: fresh_download_examples) (simp add: broken_binary_host_def)

text \<open>
  C10 says that the function returns the cache path whatever the outcome of the version
  check. When the downloaded binary prints the byte \<^verbatim>\<open>0xFF\<close> for \<^verbatim>\<open>--version\<close>, the
  \<^verbatim>\<open>.read()\<close> of line 106 raises \<^verbatim>\<open>UnicodeDecodeError\<close>: no path is returned, although
  the file is already written to the cache path with mode \<^verbatim>\<open>0o755\<close>, so that the next
  call finds it there.
\<close>

theorem version_check_fatal_on_undecodable_output:
  "fst (download_cloudquery garbled_version_host empty_cache ''v6.4.1'') = Inl UnicodeDecodeError
   \<and> fs (snd (download_cloudquery garbled_version_host empty_cache ''v6.4.1'')) ''/tmp/cloudquery'' =
       Some \<lparr>data = ''ELF'', mode = 493\<rparr>"
proof -
  have url: "get_cloudquery_download_url garbled_version_host ''v6.4.1'' =
     Inr ''https://github.com/cloudquery/cloudquery/releases/download/cli-v6.4.1/cloudquery_linux_amd64''"
    by (simp add: linux_url)
  have st: "raise_for_status \<lparr>status_code = 200, content = ''ELF''\<rparr> = Inr ()"
    by (simp add: raise_for_status_def)
  have sys: "lower (platform_system garbled_version_host) \<noteq> ''windows''"
    by (simp add: garbled_version_host_def linux_host_def posix_host_def lower_literals)
  note w = download_written [OF example_exists(1) url linux_responses(5) st]
  from w(1) w(2) sys show ?thesis
    by (simp add: example_paths example_version_output octal_def)
qed

end
